theory Spec2Isabelle
  imports Main "HOL-Library.Word" "HOL-Library.AList"
begin

unbundle bit_operations_syntax

section \<open>System Event Client: \<open>hid_system_client\<close> (src/userspace/share/hid_system_client.hpp)\<close>

subsection \<open>Handles, return codes and constants of the OS headers\<close>

text \<open>
  \<open>io_object_t\<close>, \<open>io_service_t\<close>, \<open>io_connect_t\<close> are Mach port names (32-bit unsigned),
  \<open>kern_return_t\<close> is a 32-bit integer that the source compares with \<open>KERN_SUCCESS\<close> and
  prints in hexadecimal. The numeric values below are those of the OS headers the
  source includes.
\<close>

type_synonym io_object_t = "32 word"
type_synonym io_service_t = "32 word"
type_synonym io_connect_t = "32 word"
type_synonym kern_return_t = "32 word"
type_synonym IOOptionBits = "32 word"
type_synonym UInt32 = "32 word"

definition IO_OBJECT_NULL :: io_object_t where "IO_OBJECT_NULL = 0"
definition KERN_SUCCESS :: kern_return_t where "KERN_SUCCESS = 0"
definition kIOReturnSuccess :: kern_return_t where "kIOReturnSuccess = 0"

definition NX_KEYDOWN :: UInt32 where "NX_KEYDOWN = 10"
definition NX_KEYUP :: UInt32 where "NX_KEYUP = 11"
definition NX_FLAGSCHANGED :: UInt32 where "NX_FLAGSCHANGED = 12"
definition NX_SYSDEFINED :: UInt32 where "NX_SYSDEFINED = 14"
definition NX_ASCIISET :: "16 word" where "NX_ASCIISET = 0"
definition NX_SUBTYPE_AUX_CONTROL_BUTTONS :: "16 word" where "NX_SUBTYPE_AUX_CONTROL_BUTTONS = 8"
definition kNXEventDataVersion :: UInt32 where "kNXEventDataVersion = 2"
definition kIOHIDSetGlobalEventFlags :: IOOptionBits where "kIOHIDSetGlobalEventFlags = 1"
definition kIOHIDCapsLockState :: int where "kIOHIDCapsLockState = 1"

text \<open>
  \<open>NXEventData\<close> is a union that the source clears with \<open>memset\<close> and then fills through
  one of its members: nothing (\<open>post_modifier_flags\<close>), \<open>key\<close> (\<open>post_key\<close>) or
  \<open>compound\<close> (\<open>post_aux_control_button\<close>). Only the fields the source writes are kept;
  all others are zero.
\<close>

datatype NXEventData =
    NX_zeroed
  | NX_key (origCharCode: "16 word") (repeat: "16 word") (charSet: "16 word")
      (charCode: "16 word") (keyCode: "16 word") (origCharSet: "16 word")
      (keyboardType: "32 word")
  | NX_compound (subType: "16 word") (misc_L0: "32 word")

type_synonym IOGPoint = "16 word \<times> 16 word"

text \<open>
  Modelled from the spec: \<open>krbn::event_type\<close> is declared in \<open>userspace_types.hpp\<close>, which
  is not among the sources; the client only distinguishes \<open>key_down\<close> from anything else
  ("direction" in the spec).
\<close>

datatype event_type = key_down | key_up

datatype post_key_type = key | aux_control_button

subsection \<open>The outside world\<close>

text \<open>
  What the operating system answers to each call the client makes. An iterator
  (\<open>io_iterator_t\<close>) is the list of objects it is going to yield; \<open>IOIteratorNext\<close>
  returns \<open>IO_OBJECT_NULL\<close> once the list is exhausted. \<open>IOServiceOpen\<close> returns its code
  and what it stored through the \<open>connect\<close> out-parameter;
  \<open>IOHIDGetModifierLockState\<close> returns its code and what, if anything, it stored through
  the \<open>value\<close> out-parameter; \<open>IOServiceGetMatchingServices\<close> returns its code, the
  iterator object and the objects the iterator yields.
\<close>

type_synonym io_iterator_t = "io_object_t list"

record os =
  IOServiceOpen :: "io_service_t \<Rightarrow> kern_return_t \<times> io_connect_t"
  IOServiceClose :: "io_connect_t \<Rightarrow> kern_return_t"
  IOServiceGetMatchingServices :: "kern_return_t \<times> io_object_t \<times> io_iterator_t"
  IOHIDPostEvent ::
    "io_connect_t \<Rightarrow> UInt32 \<Rightarrow> IOGPoint \<Rightarrow> NXEventData \<Rightarrow> UInt32 \<Rightarrow> IOOptionBits \<Rightarrow> IOOptionBits
      \<Rightarrow> kern_return_t"
  IOHIDGetModifierLockState :: "io_connect_t \<Rightarrow> int \<Rightarrow> kern_return_t \<times> bool option"
  IOHIDSetModifierLockState :: "io_connect_t \<Rightarrow> int \<Rightarrow> bool \<Rightarrow> kern_return_t"

text \<open>
  Everything the client does to the outside world, in program order: the OS calls with
  their arguments and answers, and the lines it logs (level, format string, and the code
  printed with it, if any).
\<close>

datatype log_level = info | error

datatype effect =
    Call_IOObjectRetain io_object_t
  | Call_IOObjectRelease io_object_t
  | Call_IOServiceOpen io_service_t kern_return_t io_connect_t
  | Call_IOServiceClose io_connect_t kern_return_t
  | Call_IOServiceGetMatchingServices kern_return_t
  | Call_IOHIDPostEvent io_connect_t UInt32 IOGPoint NXEventData UInt32 IOOptionBits IOOptionBits
      kern_return_t
  | Call_IOHIDGetModifierLockState io_connect_t int kern_return_t
  | Call_IOHIDSetModifierLockState io_connect_t int bool kern_return_t
  | Log log_level string "kern_return_t option"

subsection \<open>The client's state\<close>

text \<open>
  The members \<open>service_\<close> and \<open>connect_\<close> of the class, whether the constructor
  registered a \<open>service_observer_\<close> (it does so only when \<open>IOServiceNameMatching\<close>
  returned a dictionary), and the effects so far. Isabelle reserves names that end in an
  underscore, so the members are written without it: \<open>service\<close>, \<open>connect\<close>,
  \<open>service_observer\<close>.
\<close>

record hid_system_client =
  service :: io_service_t
  connect :: io_connect_t
  service_observer :: bool
  effects :: "effect list"

definition emit :: "effect \<Rightarrow> hid_system_client \<Rightarrow> hid_system_client" where
  "emit e s = s\<lparr>effects := effects s @ [e]\<rparr>"

text \<open>The constructor; \<open>dictionary\<close> tells whether \<open>IOServiceNameMatching\<close> succeeded.\<close>

definition hid_system_client_new :: "bool \<Rightarrow> hid_system_client" where
  "hid_system_client_new dictionary =
     (let s = \<lparr>service = IO_OBJECT_NULL, connect = IO_OBJECT_NULL,
                service_observer = False, effects = []\<rparr>
      in if \<not> dictionary then emit (Log error ''IOServiceNameMatching error @ {0}'' None) s
         else s\<lparr>service_observer := True\<rparr>)"

subsection \<open>Arrival and termination callbacks\<close>

text \<open>
  The body of the loop of \<open>matched_callback\<close> for one service \<open>svc\<close> the iterator
  yielded (the source's local \<open>service\<close>), run under the mutex: the first service seen
  while \<open>service_\<close> is null is kept, retained and opened; every service is released.
\<close>

definition matched_service :: "os \<Rightarrow> io_service_t \<Rightarrow> hid_system_client \<Rightarrow> hid_system_client" where
  "matched_service env svc s =
     (let s1 =
        (if service s = IO_OBJECT_NULL then
           (let s2 = emit (Call_IOObjectRetain svc) (s\<lparr>service := svc\<rparr>);
                (kr, c) = IOServiceOpen env (service s2);
                s3 = emit (Call_IOServiceOpen (service s2) kr c) (s2\<lparr>connect := c\<rparr>);
                s4 = (if kr \<noteq> KERN_SUCCESS
                      then (emit (Log error ''IOServiceOpen error: 0x{1:x} @ {0}'' (Some kr)) s3)
                             \<lparr>connect := IO_OBJECT_NULL\<rparr>
                      else s3)
            in emit (Log info ''IOServiceOpen is succeeded @ {0}'' None) s4)
         else s)
      in emit (Call_IOObjectRelease svc) s1)"

text \<open>
  \<open>while (auto service = IOIteratorNext(iterator)) { ... }\<close>: the loop ends when the
  iterator is exhausted or yields \<open>IO_OBJECT_NULL\<close>.
\<close>

fun matched_callback :: "os \<Rightarrow> io_iterator_t \<Rightarrow> hid_system_client \<Rightarrow> hid_system_client" where
  "matched_callback env [] s = s"
| "matched_callback env (svc # iterator) s =
     (if svc = IO_OBJECT_NULL then s
      else matched_callback env iterator (matched_service env svc s))"

definition close_connection :: "os \<Rightarrow> hid_system_client \<Rightarrow> hid_system_client" where
  "close_connection env s =
     (let s1 =
        (if connect s \<noteq> IO_OBJECT_NULL then
           (let kr = IOServiceClose env (connect s);
                s2 = emit (Call_IOServiceClose (connect s) kr) s;
                s3 = (if kr \<noteq> kIOReturnSuccess
                      then emit (Log error ''IOConnectRelease error: 0x{1:x} @ {0}'' (Some kr)) s2
                      else s2)
            in s3\<lparr>connect := IO_OBJECT_NULL\<rparr>)
         else s);
          s4 = emit (Log info ''IOServiceClose is succeeded @ {0}'' None) s1
      in if service s4 \<noteq> IO_OBJECT_NULL then emit (Call_IOObjectRelease (service s4)) s4
         else s4)"

text \<open>The first loop of \<open>terminated_callback\<close>: release what departed, remember whether
  anything did.\<close>

fun terminated_drain ::
  "io_iterator_t \<Rightarrow> bool \<Rightarrow> hid_system_client \<Rightarrow> bool \<times> hid_system_client" where
  "terminated_drain [] found s = (found, s)"
| "terminated_drain (svc # iterator) found s =
     (if svc = IO_OBJECT_NULL then (found, s)
      else terminated_drain iterator True (emit (Call_IOObjectRelease svc) s))"

text \<open>The part of \<open>terminated_callback\<close> after the close step: the synchronous re-query,
  replayed through \<open>matched_callback\<close>.\<close>

definition requery :: "os \<Rightarrow> hid_system_client \<Rightarrow> hid_system_client" where
  "requery env s =
     (let (kr, it, services) = IOServiceGetMatchingServices env;
          s1 = emit (Call_IOServiceGetMatchingServices kr) s
      in if kr \<noteq> KERN_SUCCESS
         then emit (Log error ''IOServiceGetMatchingServices error: 0x{1:x} @ {0}'' (Some kr)) s1
         else emit (Call_IOObjectRelease it) (matched_callback env services s1))"

definition terminated_callback ::
  "os \<Rightarrow> io_iterator_t \<Rightarrow> hid_system_client \<Rightarrow> hid_system_client" where
  "terminated_callback env iterator s =
     (let (found, s1) = terminated_drain iterator False s
      in if \<not> found then s1
         else requery env (close_connection env s1))"

subsection \<open>Posting and querying\<close>

definition post_event ::
  "os \<Rightarrow> UInt32 \<Rightarrow> IOGPoint \<Rightarrow> NXEventData \<Rightarrow> UInt32 \<Rightarrow> IOOptionBits \<Rightarrow> IOOptionBits
    \<Rightarrow> hid_system_client \<Rightarrow> hid_system_client" where
  "post_event env event_type location event_data event_data_version event_flags options s =
     (if connect s = IO_OBJECT_NULL then emit (Log error ''connect_ is null @ {0}'' None) s
      else
        (let kr = IOHIDPostEvent env (connect s) event_type location event_data
                    event_data_version event_flags options;
             s1 = emit (Call_IOHIDPostEvent (connect s) event_type location event_data
                          event_data_version event_flags options kr) s
         in if KERN_SUCCESS \<noteq> kr
            then emit (Log error ''IOHIDPostEvent error: 0x{1:x} @ {0}'' (Some kr)) s1
            else s1))"

definition post_modifier_flags :: "os \<Rightarrow> IOOptionBits \<Rightarrow> hid_system_client \<Rightarrow> hid_system_client" where
  "post_modifier_flags env flags s =
     post_event env NX_FLAGSCHANGED (0, 0) NX_zeroed kNXEventDataVersion flags
       kIOHIDSetGlobalEventFlags s"

text \<open>The four-argument overload \<open>post_key(key_code, event_type, flags, repeat)\<close>.\<close>

definition post_key_key ::
  "os \<Rightarrow> 8 word \<Rightarrow> event_type \<Rightarrow> IOOptionBits \<Rightarrow> bool \<Rightarrow> hid_system_client \<Rightarrow> hid_system_client" where
  "post_key_key env key_code et flags rep s =
     (let event = NX_key 0 (of_bool rep) NX_ASCIISET 0 (ucast key_code) NX_ASCIISET 0
      in post_event env (if et = key_down then NX_KEYDOWN else NX_KEYUP) (0, 0) event
           kNXEventDataVersion flags 0 s)"

definition post_aux_control_button ::
  "os \<Rightarrow> 8 word \<Rightarrow> event_type \<Rightarrow> IOOptionBits \<Rightarrow> bool \<Rightarrow> hid_system_client \<Rightarrow> hid_system_client" where
  "post_aux_control_button env key_code et flags rep s =
     (let event = NX_compound NX_SUBTYPE_AUX_CONTROL_BUTTONS
            (push_bit 16 (ucast key_code) OR
             push_bit 8 (if et = key_down then NX_KEYDOWN else NX_KEYUP) OR
             of_bool rep)
      in post_event env NX_SYSDEFINED (0, 0) event kNXEventDataVersion flags 0 s)"

fun post_key ::
  "os \<Rightarrow> post_key_type \<Rightarrow> 8 word \<Rightarrow> event_type \<Rightarrow> IOOptionBits \<Rightarrow> bool
    \<Rightarrow> hid_system_client \<Rightarrow> hid_system_client" where
  "post_key env key key_code et flags rep s = post_key_key env key_code et flags rep s"
| "post_key env aux_control_button key_code et flags rep s =
     post_aux_control_button env key_code et flags rep s"

text \<open>
  \<open>get_modifier_lock_state\<close> declares \<open>bool value;\<close> without initialising it, passes its
  address to the OS call and returns it whatever the call answered. \<open>indeterminate\<close> is
  the content of that variable when the OS call stored nothing.
\<close>

definition get_modifier_lock_state ::
  "os \<Rightarrow> bool \<Rightarrow> int \<Rightarrow> hid_system_client \<Rightarrow> bool option \<times> hid_system_client" where
  "get_modifier_lock_state env indeterminate selector s =
     (if connect s = IO_OBJECT_NULL
      then (None, emit (Log error ''connect_ is null @ {0}'' None) s)
      else
        (let (kr, stored) = IOHIDGetModifierLockState env (connect s) selector;
             val = (case stored of None \<Rightarrow> indeterminate | Some v \<Rightarrow> v);
             s1 = emit (Call_IOHIDGetModifierLockState (connect s) selector kr) s;
             s2 = (if KERN_SUCCESS \<noteq> kr
                   then emit (Log error ''IOHIDGetModifierLockState error: 0x{1:x} @ {0}'' (Some kr)) s1
                   else s1)
         in (Some val, s2)))"

definition set_modifier_lock_state ::
  "os \<Rightarrow> int \<Rightarrow> bool \<Rightarrow> hid_system_client \<Rightarrow> bool \<times> hid_system_client" where
  "set_modifier_lock_state env selector state s =
     (if connect s = IO_OBJECT_NULL
      then (False, emit (Log error ''connect_ is null @ {0}'' None) s)
      else
        (let kr = IOHIDSetModifierLockState env (connect s) selector state;
             s1 = emit (Call_IOHIDSetModifierLockState (connect s) selector state kr) s
         in if KERN_SUCCESS \<noteq> kr
            then (False, emit (Log error ''IOHIDSetModifierLockState error: 0x{1:x} @ {0}'' (Some kr)) s1)
            else (True, s1)))"

definition get_caps_lock_state ::
  "os \<Rightarrow> bool \<Rightarrow> hid_system_client \<Rightarrow> bool option \<times> hid_system_client" where
  "get_caps_lock_state env indeterminate s =
     get_modifier_lock_state env indeterminate kIOHIDCapsLockState s"

definition set_caps_lock_state :: "os \<Rightarrow> bool \<Rightarrow> hid_system_client \<Rightarrow> bool \<times> hid_system_client" where
  "set_caps_lock_state env state s = set_modifier_lock_state env kIOHIDCapsLockState state s"

subsection \<open>Notifications and what can be observed\<close>

text \<open>
  The \<open>service_observer\<close> calls \<open>matched_callback\<close> and \<open>terminated_callback\<close> with the
  iterators of the OS; without an observer no callback ever runs. A run of the client is
  a sequence of notifications, each with what the OS answers while it is handled.
\<close>

datatype notification = Matched io_iterator_t | Terminated io_iterator_t

fun notify :: "os \<Rightarrow> notification \<Rightarrow> hid_system_client \<Rightarrow> hid_system_client" where
  "notify env (Matched iterator) s =
     (if service_observer s then matched_callback env iterator s else s)"
| "notify env (Terminated iterator) s =
     (if service_observer s then terminated_callback env iterator s else s)"

fun run_notifications :: "(os \<times> notification) list \<Rightarrow> hid_system_client \<Rightarrow> hid_system_client" where
  "run_notifications [] s = s"
| "run_notifications ((env, n) # ns) s = run_notifications ns (notify env n s)"

text \<open>
  The connections the client holds after a sequence of effects: those a successful
  \<open>IOServiceOpen\<close> returned and that were not passed to \<open>IOServiceClose\<close> since.
\<close>

fun track_connection :: "effect \<Rightarrow> io_connect_t list \<Rightarrow> io_connect_t list" where
  "track_connection (Call_IOServiceOpen svc kr c) cs = (if kr = KERN_SUCCESS then c # cs else cs)"
| "track_connection (Call_IOServiceClose c kr) cs = remove1 c cs"
| "track_connection _ cs = cs"

definition open_connections :: "effect list \<Rightarrow> io_connect_t list" where
  "open_connections es = fold track_connection es []"

subsection \<open>Sample answers of the OS\<close>

text \<open>An OS where every call succeeds and one service, \<open>0x1003\<close>, is registered.\<close>

definition os_healthy :: os where
  "os_healthy =
     \<lparr>IOServiceOpen = (\<lambda>svc. (KERN_SUCCESS, svc + 0x4000)),
      IOServiceClose = (\<lambda>c. kIOReturnSuccess),
      IOServiceGetMatchingServices = (KERN_SUCCESS, 0x2a07, [0x1003]),
      IOHIDPostEvent = (\<lambda>c t l d v f opts. KERN_SUCCESS),
      IOHIDGetModifierLockState = (\<lambda>c sel. (KERN_SUCCESS, Some True)),
      IOHIDSetModifierLockState = (\<lambda>c sel b. KERN_SUCCESS)\<rparr>"

text \<open>The same OS when it refuses to open the service (\<open>kIOReturnExclusiveAccess\<close>) and
  its get and set calls fail (\<open>kIOReturnError\<close>) without storing a value.\<close>

definition os_refusing :: os where
  "os_refusing =
     os_healthy\<lparr>IOServiceOpen := (\<lambda>svc. (0xe00002c5, 0x7777)),
                IOHIDGetModifierLockState := (\<lambda>c sel. (0xe00002bc, None)),
                IOHIDSetModifierLockState := (\<lambda>c sel b. 0xe00002bc)\<rparr>"

section \<open>Driver Activation Service: \<open>kext_loader\<close> (src/core/kextd/include/kextd/kext_loader.hpp)\<close>

subsection \<open>The outside world\<close>

text \<open>
  \<open>OSReturn\<close> is \<open>kern_return_t\<close>, a 32-bit signed integer; \<open>sint\<close> reads its value, which
  is what the JSON number holds. \<open>state_\<close> is a JSON object that only ever receives integer
  members, kept as an association list from member name to value.
\<close>

type_synonym OSReturn = "32 word"
type_synonym json_object = "(string \<times> int) list"

definition kOSReturnSuccess :: OSReturn where "kOSReturnSuccess = 0"

text \<open>
  What the rest of the program and the OS answer during one timer tick: whether
  \<open>weak_version_monitor_.lock()\<close> still finds the monitor, the URL
  \<open>pqrs::cf::make_file_path_url\<close> makes of a path and its directory flag (if any), the
  result of
  \<open>KextManagerLoadKextWithURL\<close>, and the two strings of headers that are not among the
  sources (\<open>get_kernel_extension_name\<close>, \<open>get_kextd_state_json_file_path\<close>).
\<close>

record world =
  version_monitor_alive :: bool
  get_kernel_extension_name :: string
  make_file_path_url :: "string \<Rightarrow> bool \<Rightarrow> string option"
  KextManagerLoadKextWithURL :: "string \<Rightarrow> OSReturn"
  get_kextd_state_json_file_path :: string

datatype kext_effect =
    Call_async_manual_check
  | Call_KextManagerLoadKextWithURL string OSReturn
  | Log_info string OSReturn
  | Call_async_save_to_file json_object string nat nat
  | Signal_kext_loaded

subsection \<open>The loader\<close>

text \<open>
  The member \<open>state_\<close> (written \<open>state\<close>, see above for the underscore), the timer, and the
  effects so far.

  Modelled from the spec: \<open>pqrs::dispatcher::extra::timer\<close> is not among the sources. A
  timer is started with a callback and an interval, runs the callback at every interval
  while it is running, and runs it no more once stopped ("stops the timer (no further
  ticks)"). \<open>timer_running\<close> is that state of the member \<open>timer_\<close>.
\<close>

record kext_loader =
  state :: json_object
  timer_running :: bool
  kext_effects :: "kext_effect list"

definition kemit :: "kext_effect \<Rightarrow> kext_loader \<Rightarrow> kext_loader" where
  "kemit e s = s\<lparr>kext_effects := kext_effects s @ [e]\<rparr>"

definition timer_start :: "kext_loader \<Rightarrow> kext_loader" where
  "timer_start s = s\<lparr>timer_running := True\<rparr>"

definition timer_stop :: "kext_loader \<Rightarrow> kext_loader" where
  "timer_stop s = s\<lparr>timer_running := False\<rparr>"

definition kext_loader_new :: kext_loader where
  "kext_loader_new = \<lparr>state = [], timer_running = False, kext_effects = []\<rparr>"

text \<open>\<open>0755\<close> and \<open>0644\<close> are octal in the source.\<close>

definition write_state_to_file :: "world \<Rightarrow> kext_loader \<Rightarrow> kext_loader" where
  "write_state_to_file w s =
     kemit (Call_async_save_to_file (state s) (get_kextd_state_json_file_path w) 493 420) s"

text \<open>
  The callback given to \<open>timer_.start\<close>. The signal \<open>kext_loaded\<close> is enqueued to the
  dispatcher, which runs it after the callback; it is recorded where it is enqueued.
\<close>

definition timer_callback :: "world \<Rightarrow> kext_loader \<Rightarrow> kext_loader" where
  "timer_callback w s =
     (let s1 = (if version_monitor_alive w then kemit Call_async_manual_check s else s);
          kext_file_path =
            ''/Library/Application Support/org.pqrs/Karabiner-VirtualHIDDevice/Extensions/'' @
            get_kernel_extension_name w
      in case make_file_path_url w kext_file_path False of
           None \<Rightarrow> s1
         | Some url \<Rightarrow>
             (let kr = KextManagerLoadKextWithURL w url;
                  s2 = kemit (Call_KextManagerLoadKextWithURL url kr) s1;
                  s3 = kemit (Log_info ''KextManagerLoadKextWithURL: {0}'' kr) s2;
                  s4 = s3\<lparr>state := AList.update ''kext_load_result'' (sint kr) (state s3)\<rparr>;
                  s5 = write_state_to_file w s4
              in if kr = kOSReturnSuccess then kemit Signal_kext_loaded (timer_stop s5)
                 else s5))"

definition async_start :: "world \<Rightarrow> kext_loader \<Rightarrow> kext_loader" where
  "async_start w s = timer_start (write_state_to_file w s)"

text \<open>One interval elapses: the callback runs if the timer is running.\<close>

definition timer_tick :: "world \<Rightarrow> kext_loader \<Rightarrow> kext_loader" where
  "timer_tick w s = (if timer_running s then timer_callback w s else s)"

fun run_ticks :: "world list \<Rightarrow> kext_loader \<Rightarrow> kext_loader" where
  "run_ticks [] s = s"
| "run_ticks (w # ws) s = run_ticks ws (timer_tick w s)"

subsection \<open>What can be observed\<close>

text \<open>What a tick finds: the URL of the kernel extension, and the result of loading it.\<close>

definition resolved_url :: "world \<Rightarrow> string option" where
  "resolved_url w =
     make_file_path_url w
       (''/Library/Application Support/org.pqrs/Karabiner-VirtualHIDDevice/Extensions/'' @
        get_kernel_extension_name w) False"

definition load_result :: "world \<Rightarrow> OSReturn option" where
  "load_result w = map_option (KextManagerLoadKextWithURL w) (resolved_url w)"

text \<open>The records handed to \<open>json_writer::async_save_to_file\<close>, oldest first; the file
  holds the last one.\<close>

fun saved_records :: "kext_effect list \<Rightarrow> json_object list" where
  "saved_records [] = []"
| "saved_records (Call_async_save_to_file j path dir_mode file_mode # es) = j # saved_records es"
| "saved_records (_ # es) = saved_records es"

definition persisted :: "kext_loader \<Rightarrow> json_object option" where
  "persisted s =
     (case saved_records (kext_effects s) of [] \<Rightarrow> None | j # js \<Rightarrow> Some (last (j # js)))"

fun load_calls :: "kext_effect list \<Rightarrow> OSReturn list" where
  "load_calls [] = []"
| "load_calls (Call_KextManagerLoadKextWithURL url kr # es) = kr # load_calls es"
| "load_calls (_ # es) = load_calls es"

definition signals :: "kext_loader \<Rightarrow> nat" where
  "signals s = count_list (kext_effects s) Signal_kext_loaded"

subsection \<open>Sample worlds\<close>

definition world_loading :: "OSReturn \<Rightarrow> world" where
  "world_loading kr =
     \<lparr>version_monitor_alive = True,
      get_kernel_extension_name = ''org.pqrs.driver.Karabiner.VirtualHIDDevice.kext'',
      make_file_path_url = (\<lambda>path is_directory. Some (''file://'' @ path)),
      KextManagerLoadKextWithURL = (\<lambda>url. kr),
      get_kextd_state_json_file_path = ''/Library/Application Support/org.pqrs/tmp/karabiner_kextd_state.json''\<rparr>"

definition world_no_url :: world where
  "world_no_url = (world_loading 0)\<lparr>make_file_path_url := (\<lambda>path is_directory. None)\<rparr>"


section \<open>Invariants\<close>

text \<open>
  \<open>within_one es cs\<close>: starting with the connections \<open>cs\<close> held, at no point of the effects
  \<open>es\<close> is more than one connection held.
\<close>

fun within_one :: "effect list \<Rightarrow> io_connect_t list \<Rightarrow> bool" where
  "within_one [] cs = (length cs \<le> 1)"
| "within_one (e # es) cs = (length cs \<le> 1 \<and> within_one es (track_connection e cs))"

text \<open>
  What every state of the client satisfies: never more than one connection held; none
  held while \<open>service_\<close> is null; and a non-null \<open>connect_\<close> comes with a non-null
  \<open>service_\<close> on which \<open>IOServiceOpen\<close> succeeded and returned it.
\<close>

definition held_connection_known :: "hid_system_client \<Rightarrow> bool" where
  "held_connection_known s \<longleftrightarrow>
     within_one (effects s) [] \<and>
     (service s = IO_OBJECT_NULL \<longrightarrow> open_connections (effects s) = []) \<and>
     (connect s \<noteq> IO_OBJECT_NULL \<longrightarrow>
        service s \<noteq> IO_OBJECT_NULL \<and>
        Call_IOServiceOpen (service s) KERN_SUCCESS (connect s) \<in> set (effects s))"

text \<open>The record on file is the record in memory, and its member is the last result.\<close>

definition in_step :: "kext_loader \<Rightarrow> bool" where
  "in_step s \<longleftrightarrow>
     persisted s = Some (state s) \<and>
     map_of (state s) ''kext_load_result'' =
       (case load_calls (kext_effects s) of [] \<Rightarrow> None
        | kr # krs \<Rightarrow> Some (sint (last (kr # krs)))) \<and>
     length (saved_records (kext_effects s)) = Suc (length (load_calls (kext_effects s)))"

text \<open>Once started, the signal has been sent exactly when the timer has been stopped.\<close>

definition signalled_iff_stopped :: "kext_loader \<Rightarrow> bool" where
  "signalled_iff_stopped s \<longleftrightarrow> signals s = (if timer_running s then 0 else 1)"

section \<open>Properties of the System Event Client\<close>

subsection \<open>Arrival batches\<close>

lemma emit_fields:
  "service (emit e s) = service s" "connect (emit e s) = connect s"
  "service_observer (emit e s) = service_observer s" "effects (emit e s) = effects s @ [e]"
  by (simp_all add: emit_def)

lemma matched_service_held:
  "service s \<noteq> IO_OBJECT_NULL \<Longrightarrow>
   matched_service env svc s = s\<lparr>effects := effects s @ [Call_IOObjectRelease svc]\<rparr>"
  by (simp add: matched_service_def emit_def)

lemma matched_service_free:
  assumes "service s = IO_OBJECT_NULL" and "IOServiceOpen env svc = (kr, c)"
  shows "matched_service env svc s =
    s\<lparr>service := svc,
      connect := (if kr = KERN_SUCCESS then c else IO_OBJECT_NULL),
      effects := effects s @
        [Call_IOObjectRetain svc, Call_IOServiceOpen svc kr c] @
        (if kr = KERN_SUCCESS then []
         else [Log error ''IOServiceOpen error: 0x{1:x} @ {0}'' (Some kr)]) @
        [Log info ''IOServiceOpen is succeeded @ {0}'' None, Call_IOObjectRelease svc]\<rparr>"
  using assms by (simp add: matched_service_def emit_def Let_def)

lemma matched_callback_held:
  "service s \<noteq> IO_OBJECT_NULL \<Longrightarrow> IO_OBJECT_NULL \<notin> set iterator \<Longrightarrow>
   matched_callback env iterator s =
     s\<lparr>effects := effects s @ map Call_IOObjectRelease iterator\<rparr>"
proof (induction iterator arbitrary: s)
  case Nil
  then show ?case by simp
next
  case (Cons svc iterator)
  then show ?case by (auto simp add: matched_service_held)
qed

lemma close_connection_fields:
  "service (close_connection env s) = service s"
  "connect (close_connection env s) = IO_OBJECT_NULL"
  "service_observer (close_connection env s) = service_observer s"
  by (simp_all add: close_connection_def emit_def Let_def)

lemma terminated_drain_fields:
  "service (snd (terminated_drain iterator found s)) = service s"
  "connect (snd (terminated_drain iterator found s)) = connect s"
  "service_observer (snd (terminated_drain iterator found s)) = service_observer s"
  by (induction iterator found s rule: terminated_drain.induct) (simp_all add: emit_def)

lemma terminated_drain_found:
  "fst (terminated_drain iterator found s) = (found \<or> (iterator \<noteq> [] \<and> hd iterator \<noteq> IO_OBJECT_NULL))"
  by (induction iterator found s rule: terminated_drain.induct) auto


lemma matched_callback_free:
  assumes "service s = IO_OBJECT_NULL" and "IO_OBJECT_NULL \<notin> set (a # rest)"
    and "IOServiceOpen env a = (kr, c)"
  shows "matched_callback env (a # rest) s =
    s\<lparr>service := a,
      connect := (if kr = KERN_SUCCESS then c else IO_OBJECT_NULL),
      effects := effects s @
        [Call_IOObjectRetain a, Call_IOServiceOpen a kr c] @
        (if kr = KERN_SUCCESS then []
         else [Log error ''IOServiceOpen error: 0x{1:x} @ {0}'' (Some kr)]) @
        [Log info ''IOServiceOpen is succeeded @ {0}'' None, Call_IOObjectRelease a] @
        map Call_IOObjectRelease rest\<rparr>"
proof -
  let ?s1 = "matched_service env a s"
  have a: "a \<noteq> IO_OBJECT_NULL" and rest: "IO_OBJECT_NULL \<notin> set rest"
    using assms(2) by auto
  have s1: "service ?s1 = a"
    by (simp add: matched_service_free [OF assms(1) assms(3)])
  have "matched_callback env (a # rest) s = matched_callback env rest ?s1"
    using a by simp
  also have "\<dots> = ?s1\<lparr>effects := effects ?s1 @ map Call_IOObjectRelease rest\<rparr>"
    using a rest s1 by (intro matched_callback_held) simp_all
  finally show ?thesis
    by (simp add: matched_service_free [OF assms(1) assms(3)])
qed

text \<open>
  Claim C6, as amended. If an arrival batch reports two or more services while no service
  handle is held (\<open>service_\<close> is null), the first service of the batch becomes
  \<open>service_\<close>, is retained and is the only one \<open>IOServiceOpen\<close> is called on; \<open>connect_\<close>
  is what the call stored when it succeeded and null otherwise; every service of the
  batch, the first included, is released, and nothing else is done.
\<close>

theorem first_match_wins:
  assumes "service s = IO_OBJECT_NULL"
    and "IO_OBJECT_NULL \<notin> set (a # b # rest)"
    and "IOServiceOpen env a = (kr, c)"
  shows "service (matched_callback env (a # b # rest) s) = a \<and>
    connect (matched_callback env (a # b # rest) s) =
      (if kr = KERN_SUCCESS then c else IO_OBJECT_NULL) \<and>
    effects (matched_callback env (a # b # rest) s) =
      effects s @
      [Call_IOObjectRetain a, Call_IOServiceOpen a kr c] @
      (if kr = KERN_SUCCESS then []
       else [Log error ''IOServiceOpen error: 0x{1:x} @ {0}'' (Some kr)]) @
      [Log info ''IOServiceOpen is succeeded @ {0}'' None, Call_IOObjectRelease a] @
      map Call_IOObjectRelease (b # rest)"
  unfolding matched_callback_free [OF assms] by simp

theorem first_match_wins_witness:
  "service (hid_system_client_new True) = IO_OBJECT_NULL \<and>
   IO_OBJECT_NULL \<notin> set [0x1003, 0x1004, 0x1005 :: io_object_t] \<and>
   IOServiceOpen os_healthy 0x1003 = (KERN_SUCCESS, 0x5003) \<and>
   service (matched_callback os_healthy [0x1003, 0x1004, 0x1005] (hid_system_client_new True)) = 0x1003 \<and>
   connect (matched_callback os_healthy [0x1003, 0x1004, 0x1005] (hid_system_client_new True)) = 0x5003 \<and>
   effects (matched_callback os_healthy [0x1003, 0x1004, 0x1005] (hid_system_client_new True)) =
     [Call_IOObjectRetain 0x1003, Call_IOServiceOpen 0x1003 0 0x5003,
      Log info ''IOServiceOpen is succeeded @ {0}'' None, Call_IOObjectRelease 0x1003,
      Call_IOObjectRelease 0x1004, Call_IOObjectRelease 0x1005]"
  using first_match_wins [of "hid_system_client_new True" "0x1003" "0x1004" "[0x1005]"
      os_healthy KERN_SUCCESS "0x5003"]
  by (simp add: hid_system_client_new_def os_healthy_def IO_OBJECT_NULL_def KERN_SUCCESS_def)

text \<open>
  Claim C6 as stated ("while no connection is held") fails: after an open that the OS
  refused, no connection is held but \<open>service_\<close> is set, and a batch of two services is
  released whole, without any open.
\<close>

theorem first_match_wins_counterexample:
  "connect (matched_callback os_refusing [0x1003] (hid_system_client_new True)) = IO_OBJECT_NULL \<and>
   matched_callback os_healthy [0x1004, 0x1005]
     (matched_callback os_refusing [0x1003] (hid_system_client_new True)) =
   \<lparr>service = 0x1003, connect = IO_OBJECT_NULL, service_observer = True,
    effects =
      [Call_IOObjectRetain 0x1003, Call_IOServiceOpen 0x1003 0xe00002c5 0x7777,
       Log error ''IOServiceOpen error: 0x{1:x} @ {0}'' (Some 0xe00002c5),
       Log info ''IOServiceOpen is succeeded @ {0}'' None, Call_IOObjectRelease 0x1003,
       Call_IOObjectRelease 0x1004, Call_IOObjectRelease 0x1005]\<rparr>"
  by (simp add: hid_system_client_new_def os_healthy_def os_refusing_def matched_service_def
      emit_def IO_OBJECT_NULL_def KERN_SUCCESS_def)

text \<open>
  Claim C10. An arrival batch handled while \<open>service_\<close> is not null, whether a connection is
  held or the last open failed, changes neither \<open>service_\<close> nor \<open>connect_\<close> and calls
  nothing but \<open>IOObjectRelease\<close>, once for each service of the batch: no open is attempted.
\<close>

theorem held_service_blocks_open:
  assumes "service s \<noteq> IO_OBJECT_NULL" and "IO_OBJECT_NULL \<notin> set iterator"
  shows "matched_callback env iterator s =
    s\<lparr>effects := effects s @ map Call_IOObjectRelease iterator\<rparr>"
  using assms by (rule matched_callback_held)

theorem held_service_blocks_open_witness:
  "service (matched_callback os_refusing [0x1003] (hid_system_client_new True)) \<noteq> IO_OBJECT_NULL \<and>
   connect (matched_callback os_refusing [0x1003] (hid_system_client_new True)) = IO_OBJECT_NULL \<and>
   IO_OBJECT_NULL \<notin> set [0x1004, 0x1005 :: io_object_t] \<and>
   matched_callback os_healthy [0x1004, 0x1005]
     (matched_callback os_refusing [0x1003] (hid_system_client_new True)) =
   (matched_callback os_refusing [0x1003] (hid_system_client_new True))
     \<lparr>effects := effects (matched_callback os_refusing [0x1003] (hid_system_client_new True)) @
        [Call_IOObjectRelease 0x1004, Call_IOObjectRelease 0x1005]\<rparr>"
proof -
  let ?s = "matched_callback os_refusing [0x1003] (hid_system_client_new True)"
  have s: "service ?s \<noteq> IO_OBJECT_NULL" "connect ?s = IO_OBJECT_NULL"
    by (simp_all add: hid_system_client_new_def os_refusing_def os_healthy_def
        matched_service_def emit_def IO_OBJECT_NULL_def KERN_SUCCESS_def)
  have b: "IO_OBJECT_NULL \<notin> set [0x1004, 0x1005 :: io_object_t]"
    by (simp add: IO_OBJECT_NULL_def)
  from held_service_blocks_open [OF s(1) b, of os_healthy] s b show ?thesis
    by simp
qed

subsection \<open>Termination handling\<close>

lemma terminated_callback_found:
  assumes "d \<noteq> IO_OBJECT_NULL"
  shows "terminated_callback env (d # ds) s =
    requery env (close_connection env (snd (terminated_drain (d # ds) False s)))"
proof -
  have "fst (terminated_drain (d # ds) False s)"
    using assms by (simp add: terminated_drain_found)
  then show ?thesis
    by (simp add: terminated_callback_def split_beta)
qed

lemma matched_callback_held_fields:
  "service s \<noteq> IO_OBJECT_NULL \<Longrightarrow>
   service (matched_callback env iterator s) = service s \<and>
   connect (matched_callback env iterator s) = connect s"
proof (induction iterator arbitrary: s)
  case Nil
  then show ?case by simp
next
  case (Cons svc iterator)
  have "service (matched_service env svc s) \<noteq> IO_OBJECT_NULL"
    and "service (matched_service env svc s) = service s"
    and "connect (matched_service env svc s) = connect s"
    using Cons.prems by (simp_all add: matched_service_held)
  with Cons.IH [of "matched_service env svc s"] show ?case by simp
qed

lemma requery_held_fields:
  assumes "service s \<noteq> IO_OBJECT_NULL"
  shows "service (requery env s) = service s \<and> connect (requery env s) = connect s"
proof -
  have m: "service (matched_callback env iterator (emit e s)) = service s \<and>
      connect (matched_callback env iterator (emit e s)) = connect s" for e iterator
    using matched_callback_held_fields [of "emit e s" env iterator] assms
    by (simp add: emit_fields)
  show ?thesis
    by (simp add: requery_def split_beta Let_def emit_fields m)
qed

text \<open>
  Whatever the OS answers, the termination of a service while \<open>service_\<close> is set ends
  without a connection: the close step keeps \<open>service_\<close>, and the replay of the re-queried
  services then opens nothing.
\<close>

lemma terminated_callback_held_stays_disconnected:
  assumes "d \<noteq> IO_OBJECT_NULL" and "service s \<noteq> IO_OBJECT_NULL"
  shows "connect (terminated_callback env (d # ds) s) = IO_OBJECT_NULL \<and>
    service (terminated_callback env (d # ds) s) = service s"
proof -
  let ?closed = "close_connection env (snd (terminated_drain (d # ds) False s))"
  have s: "service ?closed = service s" and c: "connect ?closed = IO_OBJECT_NULL"
    by (simp_all add: close_connection_fields terminated_drain_fields
        del: terminated_drain.simps)
  have "service ?closed \<noteq> IO_OBJECT_NULL"
    using assms(2) s by simp
  from requery_held_fields [OF this, of env] s c show ?thesis
    unfolding terminated_callback_found [OF assms(1)] by simp
qed

text \<open>
  Claim C1, evaluated on the code: the spec's scenario. Service \<open>0x1003\<close> is matched and
  opened (connection \<open>0x5003\<close>), then its termination is notified while the re-query still
  lists it and the OS would open it again. Termination handling closes the connection,
  re-queries and replays the service through \<open>matched_callback\<close>, but \<open>service_\<close> is still
  \<open>0x1003\<close> (see C2), so no open is attempted and the client ends without a connection.
\<close>

theorem terminated_callback_does_not_reconnect:
  "matched_callback os_healthy [0x1003] (hid_system_client_new True) =
     \<lparr>service = 0x1003, connect = 0x5003, service_observer = True,
      effects =
        [Call_IOObjectRetain 0x1003, Call_IOServiceOpen 0x1003 KERN_SUCCESS 0x5003,
         Log info ''IOServiceOpen is succeeded @ {0}'' None, Call_IOObjectRelease 0x1003]\<rparr> \<and>
   IOServiceGetMatchingServices os_healthy = (KERN_SUCCESS, 0x2a07, [0x1003]) \<and>
   IOServiceOpen os_healthy 0x1003 = (KERN_SUCCESS, 0x5003) \<and>
   terminated_callback os_healthy [0x1003]
       (matched_callback os_healthy [0x1003] (hid_system_client_new True)) =
     \<lparr>service = 0x1003, connect = IO_OBJECT_NULL, service_observer = True,
      effects =
        [Call_IOObjectRetain 0x1003, Call_IOServiceOpen 0x1003 KERN_SUCCESS 0x5003,
         Log info ''IOServiceOpen is succeeded @ {0}'' None, Call_IOObjectRelease 0x1003,
         Call_IOObjectRelease 0x1003,
         Call_IOServiceClose 0x5003 kIOReturnSuccess,
         Log info ''IOServiceClose is succeeded @ {0}'' None,
         Call_IOObjectRelease 0x1003,
         Call_IOServiceGetMatchingServices KERN_SUCCESS,
         Call_IOObjectRelease 0x1003, Call_IOObjectRelease 0x2a07]\<rparr>"
  by (simp add: terminated_callback_def requery_def close_connection_def matched_service_def
      emit_def hid_system_client_new_def os_healthy_def
      IO_OBJECT_NULL_def KERN_SUCCESS_def kIOReturnSuccess_def)

text \<open>
  Claim C2, evaluated on the code: a client connected to service \<open>0x1003\<close> receives the
  termination of that service. After the close step \<open>connect_\<close> is null, but \<open>service_\<close> is
  still \<open>0x1003\<close>: \<open>close_connection\<close> releases the service and does not clear the member.
\<close>

theorem close_step_keeps_service_handle:
  "connect (matched_callback os_healthy [0x1003] (hid_system_client_new True)) = 0x5003 \<and>
   fst (terminated_drain [0x1003] False
     (matched_callback os_healthy [0x1003] (hid_system_client_new True))) \<and>
   connect (close_connection os_healthy (snd (terminated_drain [0x1003] False
     (matched_callback os_healthy [0x1003] (hid_system_client_new True))))) = IO_OBJECT_NULL \<and>
   service (close_connection os_healthy (snd (terminated_drain [0x1003] False
     (matched_callback os_healthy [0x1003] (hid_system_client_new True))))) = 0x1003"
  by (simp add: close_connection_def matched_service_def
      emit_def hid_system_client_new_def os_healthy_def
      IO_OBJECT_NULL_def KERN_SUCCESS_def kIOReturnSuccess_def)

lemma get_modifier_lock_state_connected:
  "connect s \<noteq> IO_OBJECT_NULL \<Longrightarrow>
   fst (get_modifier_lock_state env indeterminate selector s) =
     Some (case snd (IOHIDGetModifierLockState env (connect s) selector) of
             None \<Rightarrow> indeterminate | Some v \<Rightarrow> v)"
  by (simp add: get_modifier_lock_state_def split_beta Let_def)

text \<open>
  Claim C3, evaluated on the code: with a connection held and
  \<open>IOHIDGetModifierLockState\<close> answering \<open>kIOReturnError\<close> without storing a value,
  \<open>get_caps_lock_state\<close> does not return none; it returns whatever the uninitialised
  local \<open>value\<close> holds.
\<close>

theorem get_caps_lock_state_present_on_failure:
  "connect (matched_callback os_healthy [0x1003] (hid_system_client_new True)) = 0x5003 \<and>
   IOHIDGetModifierLockState os_refusing 0x5003 kIOHIDCapsLockState = (0xe00002bc, None) \<and>
   fst (get_caps_lock_state os_refusing False
     (matched_callback os_healthy [0x1003] (hid_system_client_new True))) = Some False \<and>
   fst (get_caps_lock_state os_refusing True
     (matched_callback os_healthy [0x1003] (hid_system_client_new True))) = Some True"
  by (simp add: get_caps_lock_state_def get_modifier_lock_state_def matched_service_def
      emit_def hid_system_client_new_def os_healthy_def os_refusing_def
      IO_OBJECT_NULL_def KERN_SUCCESS_def)

text \<open>
  Claim C7. While no connection is held (\<open>connect_\<close> is null), \<open>post_modifier_flags\<close>,
  \<open>post_key\<close>, \<open>get_caps_lock_state\<close> and \<open>set_caps_lock_state\<close> leave \<open>service_\<close> and
  \<open>connect_\<close> as they are, make no OS call and log one error line; the get returns none
  and the set returns false. None of them has a path that throws.
\<close>

theorem disconnected_operations_fail:
  assumes "connect s = IO_OBJECT_NULL"
  shows "post_modifier_flags env flags s =
      s\<lparr>effects := effects s @ [Log error ''connect_ is null @ {0}'' None]\<rparr> \<and>
    post_key env t key_code et flags rep s =
      s\<lparr>effects := effects s @ [Log error ''connect_ is null @ {0}'' None]\<rparr> \<and>
    get_caps_lock_state env indeterminate s =
      (None, s\<lparr>effects := effects s @ [Log error ''connect_ is null @ {0}'' None]\<rparr>) \<and>
    set_caps_lock_state env v s =
      (False, s\<lparr>effects := effects s @ [Log error ''connect_ is null @ {0}'' None]\<rparr>)"
  using assms
  by (cases t)
    (simp_all add: post_modifier_flags_def post_key_key_def post_aux_control_button_def
      post_event_def get_caps_lock_state_def get_modifier_lock_state_def
      set_caps_lock_state_def set_modifier_lock_state_def emit_def)

theorem disconnected_operations_fail_witness:
  "connect (hid_system_client_new True) = IO_OBJECT_NULL \<and>
   post_modifier_flags os_healthy 0x10000 (hid_system_client_new True) =
     (hid_system_client_new True)\<lparr>effects := [Log error ''connect_ is null @ {0}'' None]\<rparr> \<and>
   post_key os_healthy aux_control_button 7 key_down 0x10000 False (hid_system_client_new True) =
     (hid_system_client_new True)\<lparr>effects := [Log error ''connect_ is null @ {0}'' None]\<rparr> \<and>
   get_caps_lock_state os_healthy True (hid_system_client_new True) =
     (None, (hid_system_client_new True)\<lparr>effects := [Log error ''connect_ is null @ {0}'' None]\<rparr>) \<and>
   set_caps_lock_state os_healthy True (hid_system_client_new True) =
     (False, (hid_system_client_new True)\<lparr>effects := [Log error ''connect_ is null @ {0}'' None]\<rparr>)"
proof -
  have "connect (hid_system_client_new True) = IO_OBJECT_NULL"
    by (simp add: hid_system_client_new_def)
  from disconnected_operations_fail [OF this, where env = os_healthy and flags = "0x10000"
      and t = aux_control_button and key_code = 7 and et = key_down and rep = False
      and indeterminate = True and v = True]
  show ?thesis by (simp add: hid_system_client_new_def)
qed

subsection \<open>The connection invariant\<close>

lemma within_one_start: "within_one es cs \<Longrightarrow> length cs \<le> 1"
  by (cases es) simp_all

lemma within_one_append:
  "within_one (es @ fs) cs \<longleftrightarrow> within_one es cs \<and> within_one fs (fold track_connection es cs)"
  by (induction es arbitrary: cs) (auto dest: within_one_start)

lemma within_one_final: "within_one es cs \<Longrightarrow> length (fold track_connection es cs) \<le> 1"
  by (induction es arbitrary: cs) auto

lemma within_one_prefixes:
  "within_one es cs \<longleftrightarrow> (\<forall>n. length (fold track_connection (take n es) cs) \<le> 1)"
proof (induction es arbitrary: cs)
  case Nil
  then show ?case by simp
next
  case (Cons e es)
  have "(\<forall>n. length (fold track_connection (take n (e # es)) cs) \<le> 1) \<longleftrightarrow>
      length cs \<le> 1 \<and> (\<forall>n. length (fold track_connection (take n es) (track_connection e cs)) \<le> 1)"
    (is "?l \<longleftrightarrow> ?r")
  proof
    assume l: ?l
    from l [rule_format, of 0] have "length cs \<le> 1" by simp
    moreover have "length (fold track_connection (take n es) (track_connection e cs)) \<le> 1" for n
      using l [rule_format, of "Suc n"] by simp
    ultimately show ?r by simp
  next
    assume r: ?r
    show ?l
    proof
      fix n
      show "length (fold track_connection (take n (e # es)) cs) \<le> 1"
        using r by (cases n) simp_all
    qed
  qed
  with Cons.IH [of "track_connection e cs"] show ?case by simp
qed

lemma open_connections_append:
  "open_connections (es @ fs) = fold track_connection fs (open_connections es)"
  by (simp add: open_connections_def)

lemma remove1_length_le: "length (remove1 x xs) \<le> length xs"
  by (induction xs) auto

lemma held_new: "held_connection_known (hid_system_client_new dictionary)"
  by (simp add: held_connection_known_def hid_system_client_new_def emit_def
      open_connections_def Let_def)

lemma held_matched_service:
  assumes "held_connection_known s" and "svc \<noteq> IO_OBJECT_NULL"
  shows "held_connection_known (matched_service env svc s)"
proof (cases "service s = IO_OBJECT_NULL")
  case False
  have one: "length (open_connections (effects s)) \<le> 1"
    using assms(1) within_one_final [of "effects s" "[]"]
    by (simp add: held_connection_known_def open_connections_def)
  from assms(1) False one show ?thesis
    unfolding matched_service_held [OF False] held_connection_known_def
    by (simp add: within_one_append open_connections_append open_connections_def [symmetric])
next
  case True
  obtain kr c where opn: "IOServiceOpen env svc = (kr, c)"
    by (cases "IOServiceOpen env svc")
  have none: "open_connections (effects s) = []"
    using assms(1) True by (simp add: held_connection_known_def)
  from assms none show ?thesis
    unfolding matched_service_free [OF True opn] held_connection_known_def
    by (simp add: within_one_append open_connections_append open_connections_def [symmetric])
qed

lemma held_matched_callback:
  "held_connection_known s \<Longrightarrow> held_connection_known (matched_callback env iterator s)"
  by (induction iterator arbitrary: s) (simp_all add: held_matched_service)

lemma held_emit:
  assumes "held_connection_known s" and "\<And>cs. track_connection e cs = cs"
  shows "held_connection_known (emit e s)"
proof -
  have one: "length (open_connections (effects s)) \<le> 1"
    using assms(1) within_one_final [of "effects s" "[]"]
    by (simp add: held_connection_known_def open_connections_def)
  from assms(1) one show ?thesis
    unfolding held_connection_known_def
    by (simp add: emit_def within_one_append open_connections_append assms(2)
        open_connections_def [symmetric])
qed

lemma held_terminated_drain:
  "held_connection_known s \<Longrightarrow> held_connection_known (snd (terminated_drain iterator found s))"
  by (induction iterator found s rule: terminated_drain.induct) (simp_all add: held_emit)

lemma held_close_connection:
  assumes "held_connection_known s"
  shows "held_connection_known (close_connection env s)"
proof -
  have one: "length (open_connections (effects s)) \<le> 1"
    using assms(1) within_one_final [of "effects s" "[]"]
    by (simp add: held_connection_known_def open_connections_def)
  have rem: "length (remove1 (connect s) (open_connections (effects s))) \<le> 1"
    using one remove1_length_le [of "connect s" "open_connections (effects s)"] by simp
  from assms one rem show ?thesis
    unfolding held_connection_known_def
    by (simp add: close_connection_def emit_def Let_def within_one_append
        open_connections_append open_connections_def [symmetric])
qed

lemma held_requery: "held_connection_known s \<Longrightarrow> held_connection_known (requery env s)"
  by (simp add: requery_def split_beta Let_def held_emit held_matched_callback)

lemma held_terminated_callback:
  "held_connection_known s \<Longrightarrow> held_connection_known (terminated_callback env iterator s)"
  by (simp add: terminated_callback_def split_beta held_requery held_close_connection
      held_terminated_drain)

lemma held_notify: "held_connection_known s \<Longrightarrow> held_connection_known (notify env n s)"
  by (cases n) (simp_all add: held_matched_callback held_terminated_callback)

lemma held_run: "held_connection_known s \<Longrightarrow> held_connection_known (run_notifications ns s)"
  by (induction ns arbitrary: s) (auto simp: held_notify)

text \<open>
  Claim C9. After any sequence of arrival and termination notifications handled by a newly
  constructed client, whatever the OS answers: \<open>connect_\<close> is non-null only if \<open>service_\<close>
  is non-null and \<open>IOServiceOpen\<close> on that service succeeded and returned that connection;
  and at every point of the effects so far, at most one connection obtained from a
  successful \<open>IOServiceOpen\<close> had not yet been passed to \<open>IOServiceClose\<close>.
\<close>

theorem at_most_one_connection:
  "(connect (run_notifications ns (hid_system_client_new dictionary)) \<noteq> IO_OBJECT_NULL \<longrightarrow>
      service (run_notifications ns (hid_system_client_new dictionary)) \<noteq> IO_OBJECT_NULL \<and>
      Call_IOServiceOpen (service (run_notifications ns (hid_system_client_new dictionary)))
          KERN_SUCCESS (connect (run_notifications ns (hid_system_client_new dictionary)))
        \<in> set (effects (run_notifications ns (hid_system_client_new dictionary)))) \<and>
   (\<forall>n. length (open_connections
           (take n (effects (run_notifications ns (hid_system_client_new dictionary))))) \<le> 1)"
proof -
  have "held_connection_known (run_notifications ns (hid_system_client_new dictionary))"
    by (intro held_run held_new)
  then show ?thesis
    by (simp add: held_connection_known_def within_one_prefixes open_connections_def)
qed

theorem at_most_one_connection_witness:
  "connect (run_notifications [(os_healthy, Matched [0x1003])] (hid_system_client_new True))
     \<noteq> IO_OBJECT_NULL \<and>
   service (run_notifications [(os_healthy, Matched [0x1003])] (hid_system_client_new True))
     \<noteq> IO_OBJECT_NULL \<and>
   Call_IOServiceOpen
       (service (run_notifications [(os_healthy, Matched [0x1003])] (hid_system_client_new True)))
       KERN_SUCCESS
       (connect (run_notifications [(os_healthy, Matched [0x1003])] (hid_system_client_new True)))
     \<in> set (effects
         (run_notifications [(os_healthy, Matched [0x1003])] (hid_system_client_new True))) \<and>
   length (open_connections (take 2 (effects
       (run_notifications [(os_healthy, Matched [0x1003])] (hid_system_client_new True))))) \<le> 1"
proof -
  let ?s = "run_notifications [(os_healthy, Matched [0x1003])] (hid_system_client_new True)"
  note t = at_most_one_connection [of "[(os_healthy, Matched [0x1003])]" True]
  have h: "connect ?s \<noteq> IO_OBJECT_NULL"
    by (simp add: hid_system_client_new_def os_healthy_def matched_service_def emit_def
        IO_OBJECT_NULL_def KERN_SUCCESS_def)
  from t have "connect ?s \<noteq> IO_OBJECT_NULL \<longrightarrow>
      service ?s \<noteq> IO_OBJECT_NULL \<and>
      Call_IOServiceOpen (service ?s) KERN_SUCCESS (connect ?s) \<in> set (effects ?s)"
    by (rule conjunct1)
  with h have a: "service ?s \<noteq> IO_OBJECT_NULL \<and>
      Call_IOServiceOpen (service ?s) KERN_SUCCESS (connect ?s) \<in> set (effects ?s)"
    by (rule rev_mp)
  from t have "\<forall>n. length (open_connections (take n (effects ?s))) \<le> 1"
    by (rule conjunct2)
  then have b: "length (open_connections (take 2 (effects ?s))) \<le> 1"
    by (rule spec)
  from h a b show ?thesis by (intro conjI) (erule conjunct1 conjunct2 | assumption)+
qed

section \<open>Properties of the Driver Activation Service\<close>

lemma kemit_fields:
  "state (kemit e s) = state s" "timer_running (kemit e s) = timer_running s"
  "kext_effects (kemit e s) = kext_effects s @ [e]"
  by (simp_all add: kemit_def)

lemma timer_callback_unresolved:
  "resolved_url w = None \<Longrightarrow>
   timer_callback w s = (if version_monitor_alive w then kemit Call_async_manual_check s else s)"
  by (simp add: timer_callback_def resolved_url_def)

lemma timer_callback_resolved:
  assumes "resolved_url w = Some url" and "KextManagerLoadKextWithURL w url = kr"
  shows "timer_callback w s =
    s\<lparr>state := AList.update ''kext_load_result'' (sint kr) (state s),
      timer_running := (if kr = kOSReturnSuccess then False else timer_running s),
      kext_effects := kext_effects s @
        (if version_monitor_alive w then [Call_async_manual_check] else []) @
        [Call_KextManagerLoadKextWithURL url kr,
         Log_info ''KextManagerLoadKextWithURL: {0}'' kr,
         Call_async_save_to_file (AList.update ''kext_load_result'' (sint kr) (state s))
           (get_kextd_state_json_file_path w) 493 420] @
        (if kr = kOSReturnSuccess then [Signal_kext_loaded] else [])\<rparr>"
  using assms
  by (simp add: timer_callback_def resolved_url_def write_state_to_file_def timer_stop_def
      kemit_def Let_def)

lemma saved_records_append:
  "saved_records (xs @ ys) = saved_records xs @ saved_records ys"
  by (induction xs rule: saved_records.induct) simp_all

lemma load_calls_append: "load_calls (xs @ ys) = load_calls xs @ load_calls ys"
  by (induction xs rule: load_calls.induct) simp_all

lemma count_signals_append:
  "count_list (xs @ ys) Signal_kext_loaded =
   count_list xs Signal_kext_loaded + count_list ys Signal_kext_loaded"
  by (induction xs) simp_all

lemma run_ticks_append: "run_ticks (xs @ ys) s = run_ticks ys (run_ticks xs s)"
  by (induction xs arbitrary: s) simp_all

lemma run_ticks_stopped: "\<not> timer_running s \<Longrightarrow> run_ticks ws s = s"
  by (induction ws) (simp_all add: timer_tick_def)

lemma in_step_start: "in_step (async_start w kext_loader_new)"
  by (simp add: in_step_def async_start_def kext_loader_new_def write_state_to_file_def
      timer_start_def kemit_def persisted_def)

lemma in_step_tick: "in_step s \<Longrightarrow> in_step (timer_tick w s)"
proof (cases "timer_running s")
  case False
  assume "in_step s"
  with False show ?thesis by (simp add: timer_tick_def)
next
  case True
  assume s: "in_step s"
  show ?thesis
  proof (cases "resolved_url w")
    case None
    with True s show ?thesis
      by (simp add: timer_tick_def timer_callback_unresolved in_step_def persisted_def kemit_def
          saved_records_append load_calls_append)
  next
    case (Some url)
    from s show ?thesis
      unfolding timer_tick_def in_step_def persisted_def
        timer_callback_resolved [OF Some refl]
      by (simp add: True saved_records_append load_calls_append update_conv'
          split: list.splits)
  qed
qed

lemma in_step_run: "in_step s \<Longrightarrow> in_step (run_ticks ws s)"
  by (induction ws arbitrary: s) (simp_all add: in_step_tick)

text \<open>
  Claim C4, as amended. After \<open>async_start\<close> and any sequence of timer ticks, the record
  last handed to the file writer is the record in memory; its member \<open>kext_load_result\<close>
  is the raw result code of the most recent call of \<open>KextManagerLoadKextWithURL\<close> (and is
  absent while there has been none); and the record has been written once at start and
  once after every such call.
\<close>

theorem persisted_state_reflects_last_attempt:
  "persisted (run_ticks ws (async_start w kext_loader_new)) =
     Some (state (run_ticks ws (async_start w kext_loader_new))) \<and>
   map_of (state (run_ticks ws (async_start w kext_loader_new))) ''kext_load_result'' =
     (case load_calls (kext_effects (run_ticks ws (async_start w kext_loader_new))) of
        [] \<Rightarrow> None
      | kr # krs \<Rightarrow> Some (sint (last (kr # krs)))) \<and>
   length (saved_records (kext_effects (run_ticks ws (async_start w kext_loader_new)))) =
     Suc (length (load_calls (kext_effects (run_ticks ws (async_start w kext_loader_new)))))"
  using in_step_run [OF in_step_start, of ws w] by (simp add: in_step_def)

text \<open>
  Claim C4 as stated fails on the name of the member: after an attempt with result 1 the
  record has no member \<open>last_load_result\<close>; the result is stored under \<open>kext_load_result\<close>.
\<close>

theorem last_load_result_counterexample:
  "load_calls (kext_effects (run_ticks [world_loading 1] (async_start (world_loading 1) kext_loader_new))) = [1] \<and>
   map_of (state (run_ticks [world_loading 1] (async_start (world_loading 1) kext_loader_new)))
     ''last_load_result'' = None \<and>
   persisted (run_ticks [world_loading 1] (async_start (world_loading 1) kext_loader_new)) =
     Some [(''kext_load_result'', 1)]"
  by (simp add: async_start_def kext_loader_new_def write_state_to_file_def timer_start_def
      timer_tick_def timer_callback_def world_loading_def kemit_def persisted_def
      kOSReturnSuccess_def)


lemma signalled_iff_stopped_start: "signalled_iff_stopped (async_start w kext_loader_new)"
  by (simp add: signalled_iff_stopped_def signals_def async_start_def kext_loader_new_def
      write_state_to_file_def timer_start_def kemit_def)

lemma signalled_iff_stopped_tick:
  assumes "signalled_iff_stopped s"
  shows "signalled_iff_stopped (timer_tick w s)"
proof (cases "timer_running s")
  case False
  with assms show ?thesis by (simp add: timer_tick_def)
next
  case True
  show ?thesis
  proof (cases "resolved_url w")
    case None
    with True assms show ?thesis
      by (simp add: timer_tick_def timer_callback_unresolved signalled_iff_stopped_def
          signals_def kemit_def count_signals_append)
  next
    case (Some url)
    from assms show ?thesis
      unfolding timer_tick_def signalled_iff_stopped_def signals_def
        timer_callback_resolved [OF Some refl]
      by (simp add: True count_signals_append)
  qed
qed

lemma signalled_iff_stopped_run:
  "signalled_iff_stopped s \<Longrightarrow> signalled_iff_stopped (run_ticks ws s)"
  by (induction ws arbitrary: s) (simp_all add: signalled_iff_stopped_tick)

lemma timer_tick_success_stops:
  assumes "load_result w = Some kOSReturnSuccess"
  shows "\<not> timer_running (timer_tick w s)"
proof (cases "timer_running s")
  case False
  then show ?thesis by (simp add: timer_tick_def)
next
  case True
  from assms obtain url where url: "resolved_url w = Some url"
    and kr: "KextManagerLoadKextWithURL w url = kOSReturnSuccess"
    by (auto simp: load_result_def)
  show ?thesis
    unfolding timer_tick_def timer_callback_resolved [OF url kr] by (simp add: True)
qed

text \<open>
  Claim C5. In every sequence of timer ticks after \<open>async_start\<close>, if a tick's activation
  call returns \<open>kOSReturnSuccess\<close>, then at the end the timer is stopped, \<open>kext_loaded\<close> has
  been signalled exactly once, and the ticks after that one have changed nothing: neither
  the state nor the effects differ from those right after it.
\<close>

theorem success_stops_timer_and_signals_once:
  assumes "load_result w = Some kOSReturnSuccess"
  shows "\<not> timer_running (run_ticks (before @ w # after) (async_start w0 kext_loader_new)) \<and>
    signals (run_ticks (before @ w # after) (async_start w0 kext_loader_new)) = 1 \<and>
    run_ticks (before @ w # after) (async_start w0 kext_loader_new) =
      run_ticks (before @ [w]) (async_start w0 kext_loader_new)"
proof -
  let ?s1 = "run_ticks before (async_start w0 kext_loader_new)"
  let ?s2 = "timer_tick w ?s1"
  have stopped: "\<not> timer_running ?s2"
    using assms by (rule timer_tick_success_stops)
  have "signalled_iff_stopped ?s2"
    by (intro signalled_iff_stopped_tick signalled_iff_stopped_run signalled_iff_stopped_start)
  with stopped have once: "signals ?s2 = 1"
    by (simp add: signalled_iff_stopped_def)
  have "run_ticks (before @ w # after) (async_start w0 kext_loader_new) = run_ticks after ?s2"
    by (simp add: run_ticks_append)
  also have "\<dots> = ?s2"
    using stopped by (rule run_ticks_stopped)
  finally have all: "run_ticks (before @ w # after) (async_start w0 kext_loader_new) = ?s2" .
  have "run_ticks (before @ [w]) (async_start w0 kext_loader_new) = ?s2"
    by (simp add: run_ticks_append)
  with all stopped once show ?thesis by simp
qed

theorem success_stops_timer_and_signals_once_witness:
  "load_result (world_loading 0) = Some kOSReturnSuccess \<and>
   \<not> timer_running (run_ticks
       ([world_loading 1, world_loading 1, world_loading 1, world_loading 1] @
        world_loading 0 # [world_loading 1, world_loading 0])
       (async_start (world_loading 0) kext_loader_new)) \<and>
   signals (run_ticks
       ([world_loading 1, world_loading 1, world_loading 1, world_loading 1] @
        world_loading 0 # [world_loading 1, world_loading 0])
       (async_start (world_loading 0) kext_loader_new)) = 1 \<and>
   map_of (state (run_ticks
       ([world_loading 1, world_loading 1, world_loading 1, world_loading 1] @
        world_loading 0 # [world_loading 1, world_loading 0])
       (async_start (world_loading 0) kext_loader_new))) ''kext_load_result'' = Some 0"
proof -
  let ?before = "[world_loading 1, world_loading 1, world_loading 1, world_loading 1]"
  let ?after = "[world_loading 1, world_loading 0]"
  let ?s0 = "async_start (world_loading 0) kext_loader_new"
  have h: "load_result (world_loading 0) = Some kOSReturnSuccess"
    by (simp add: load_result_def resolved_url_def world_loading_def kOSReturnSuccess_def)
  note t = success_stops_timer_and_signals_once [OF h, of ?before ?after "world_loading 0"]
  from t have a: "\<not> timer_running (run_ticks (?before @ world_loading 0 # ?after) ?s0)"
    by (rule conjunct1)
  from t have b: "signals (run_ticks (?before @ world_loading 0 # ?after) ?s0) = 1"
    by (rule conjunct1 [OF conjunct2])
  from t have c: "run_ticks (?before @ world_loading 0 # ?after) ?s0 =
      run_ticks (?before @ [world_loading 0]) ?s0"
    by (rule conjunct2 [OF conjunct2])
  have d: "state (run_ticks (?before @ [world_loading 0]) ?s0) = [(''kext_load_result'', 0)]"
    by (simp add: async_start_def kext_loader_new_def write_state_to_file_def timer_start_def
      timer_stop_def timer_tick_def timer_callback_def world_loading_def kemit_def
      kOSReturnSuccess_def)
  have e: "map_of (state (run_ticks (?before @ world_loading 0 # ?after) ?s0))
      ''kext_load_result'' = Some 0"
    unfolding c d by simp
  from h a b e show ?thesis by (intro conjI)
qed

text \<open>
  Claim C8. On a tick of the running timer for which no URL is made of the path of the
  kernel extension, \<open>state_\<close> and the record on file are unchanged, nothing is written and
  \<open>KextManagerLoadKextWithURL\<close> is not called; the timer is still running, so the next
  interval runs the callback again.
\<close>

theorem unresolved_url_skips_attempt:
  assumes "timer_running s" and "resolved_url w = None"
  shows "state (timer_tick w s) = state s \<and>
    persisted (timer_tick w s) = persisted s \<and>
    saved_records (kext_effects (timer_tick w s)) = saved_records (kext_effects s) \<and>
    load_calls (kext_effects (timer_tick w s)) = load_calls (kext_effects s) \<and>
    timer_running (timer_tick w s) \<and>
    timer_tick w' (timer_tick w s) = timer_callback w' (timer_tick w s)"
  using assms
  by (simp add: timer_tick_def timer_callback_unresolved persisted_def kemit_def
      saved_records_append load_calls_append)

theorem unresolved_url_skips_attempt_witness:
  "resolved_url world_no_url = None \<and>
   timer_tick world_no_url (timer_tick (world_loading 1) (async_start (world_loading 1) kext_loader_new)) =
     (timer_tick (world_loading 1) (async_start (world_loading 1) kext_loader_new))
       \<lparr>kext_effects :=
          kext_effects (timer_tick (world_loading 1) (async_start (world_loading 1) kext_loader_new)) @
          [Call_async_manual_check]\<rparr> \<and>
   persisted (timer_tick world_no_url
       (timer_tick (world_loading 1) (async_start (world_loading 1) kext_loader_new))) =
     Some [(''kext_load_result'', 1)] \<and>
   timer_running (timer_tick world_no_url
       (timer_tick (world_loading 1) (async_start (world_loading 1) kext_loader_new)))"
proof -
  let ?s = "timer_tick (world_loading 1) (async_start (world_loading 1) kext_loader_new)"
  have s: "?s = \<lparr>state = [(''kext_load_result'', 1)], timer_running = True,
      kext_effects =
        [Call_async_save_to_file []
           ''/Library/Application Support/org.pqrs/tmp/karabiner_kextd_state.json'' 493 420,
         Call_async_manual_check,
         Call_KextManagerLoadKextWithURL
           ''file:///Library/Application Support/org.pqrs/Karabiner-VirtualHIDDevice/Extensions/org.pqrs.driver.Karabiner.VirtualHIDDevice.kext'' 1,
         Log_info ''KextManagerLoadKextWithURL: {0}'' 1,
         Call_async_save_to_file [(''kext_load_result'', 1)]
           ''/Library/Application Support/org.pqrs/tmp/karabiner_kextd_state.json'' 493 420]\<rparr>"
    by (simp add: async_start_def kext_loader_new_def write_state_to_file_def timer_start_def
      timer_tick_def timer_callback_def world_loading_def kemit_def kOSReturnSuccess_def)
  have 1: "timer_running ?s" unfolding s by simp
  have 2: "resolved_url world_no_url = None"
    by (simp add: resolved_url_def world_no_url_def world_loading_def)
  have 3: "persisted ?s = Some [(''kext_load_result'', 1)]"
    unfolding s by (simp add: persisted_def)
  have 4: "timer_tick world_no_url ?s = ?s\<lparr>kext_effects := kext_effects ?s @ [Call_async_manual_check]\<rparr>"
    using 1 2 by (simp add: timer_tick_def timer_callback_unresolved kemit_def
        world_no_url_def world_loading_def)
  from unresolved_url_skips_attempt [OF 1 2, of world_no_url] 2 3 4 show ?thesis
    by simp
qed

end
